theory Spec2Isabelle
  imports Main "HOL-Library.Word"
begin

section \<open>Python values and exceptions\<close>

text \<open>
  The program is \<^verbatim>\<open>analyze_can_data.py\<close>. A Python \<^verbatim>\<open>str\<close> is modelled as a
  \<^typ>\<open>string\<close>, one \<^typ>\<open>char\<close> per code point (code points below 256), a Python
  \<^verbatim>\<open>int\<close> as \<^typ>\<open>int\<close>, \<^verbatim>\<open>bytes\<close> as a list of 8-bit words. Every
  \<^verbatim>\<open>raise\<close> of the source and of the library calls it makes is a value of
  \<open>pyexc\<close>; a call that can raise returns \<open>pyexc + 'a\<close>.
\<close>

datatype pyexc = ValueError | TypeError | KeyError | AttributeError | OverflowError
  | LibraryError string

type_synonym byte = "8 word"

subsection \<open>String primitives\<close>

text \<open>\<^verbatim>\<open>str.isspace\<close> on one code point below 256; the regular expression class
  \<^verbatim>\<open>\s\<close> on a \<^verbatim>\<open>str\<close> pattern matches the same code points.\<close>

definition isspace :: "char \<Rightarrow> bool" where
  "isspace c \<longleftrightarrow>
     (let n = (of_char c :: nat)
      in (9 \<le> n \<and> n \<le> 13) \<or> (28 \<le> n \<and> n \<le> 32) \<or> n = 133 \<or> n = 160)"

text \<open>\<^verbatim>\<open>s.strip()\<close>: leading and trailing whitespace removed.\<close>

definition strip :: "string \<Rightarrow> string" where
  "strip s = rev (dropWhile isspace (rev (dropWhile isspace s)))"

text \<open>\<^verbatim>\<open>s.replace('"', '')\<close>: every double quote removed.\<close>

definition remove_quotes :: "string \<Rightarrow> string" where
  "remove_quotes s = filter (\<lambda>c. c \<noteq> CHR 0x22) s"

text \<open>\<^verbatim>\<open>re.sub(r'\s+', '', s)\<close>: every whitespace character removed.\<close>

definition remove_whitespace :: "string \<Rightarrow> string" where
  "remove_whitespace s = filter (\<lambda>c. \<not> isspace c) s"

text \<open>\<^verbatim>\<open>re.sub(r'0x', '', s, flags=re.IGNORECASE)\<close>: one pass from the left, every
  non-overlapping match of \<^verbatim>\<open>0x\<close> or \<^verbatim>\<open>0X\<close> removed; the scan resumes after
  the match, so text joined by a removal is not scanned again.\<close>

fun remove_0x :: "string \<Rightarrow> string" where
  "remove_0x (a # b # rest) =
     (if a = CHR ''0'' \<and> (b = CHR ''x'' \<or> b = CHR ''X'') then remove_0x rest
      else a # remove_0x (b # rest))"
| "remove_0x s = s"

text \<open>The class \<^verbatim>\<open>[0-9A-Fa-f]\<close>, by code point.\<close>

definition hexdigit :: "char \<Rightarrow> bool" where
  "hexdigit c \<longleftrightarrow>
     (let n = (of_char c :: nat)
      in (48 \<le> n \<and> n \<le> 57) \<or> (65 \<le> n \<and> n \<le> 70) \<or> (97 \<le> n \<and> n \<le> 102))"

text \<open>\<^verbatim>\<open>re.match(r'^[0-9A-Fa-f]+$', s)\<close>: one or more hexadecimal digits; the
  \<^verbatim>\<open>$\<close> of Python also matches just before a final newline.\<close>

definition match_hex :: "string \<Rightarrow> bool" where
  "match_hex s \<longleftrightarrow>
     (let t = (if s \<noteq> [] \<and> last s = CHR 0x0A then butlast s else s)
      in t \<noteq> [] \<and> list_all hexdigit t)"

section \<open>normalize_data_field\<close>

text \<open>Lines 23-39. Both \<^verbatim>\<open>raise ValueError\<close> are caught by the function's own
  \<^verbatim>\<open>except Exception\<close> and raised again as \<^verbatim>\<open>ValueError\<close>.\<close>

definition normalize_data_field :: "string \<Rightarrow> pyexc + string" where
  "normalize_data_field data =
     (let data1 = remove_quotes (strip data);
          data2 = remove_whitespace data1;
          data3 = remove_0x data2
      in if length data3 mod 2 \<noteq> 0 then Inl ValueError
         else if \<not> match_hex data3 then Inl ValueError
         else Inr data3)"

section \<open>Python's int(), hex(), str() and bytes.fromhex\<close>

text \<open>The value of one digit character in \<^verbatim>\<open>int(s, base)\<close>: \<^verbatim>\<open>0-9\<close>, then the
  letters of either case from 10 on.\<close>

definition digit_value :: "char \<Rightarrow> nat option" where
  "digit_value c =
     (let n = (of_char c :: nat)
      in if 48 \<le> n \<and> n \<le> 57 then Some (n - 48)
         else if 97 \<le> n \<and> n \<le> 122 then Some (n - 87)
         else if 65 \<le> n \<and> n \<le> 90 then Some (n - 55)
         else None)"

text \<open>The digit scan of \<^verbatim>\<open>int\<close>: digits below the base, a single underscore allowed
  between two digits only. The flag says that a digit must come next (at the start and
  after an underscore).\<close>

fun digits_acc :: "nat \<Rightarrow> bool \<Rightarrow> nat \<Rightarrow> string \<Rightarrow> nat option" where
  "digits_acc b need acc [] = (if need then None else Some acc)"
| "digits_acc b need acc (c # cs) =
     (if c = CHR ''_'' then (if need then None else digits_acc b True acc cs)
      else (case digit_value c of
              None \<Rightarrow> None
            | Some d \<Rightarrow> if d < b then digits_acc b False (acc * b + d) cs else None))"

definition max_str_digits :: nat where
  "max_str_digits = 4300"

definition startswith :: "string \<Rightarrow> string \<Rightarrow> bool" where
  "startswith s p \<longleftrightarrow> take (length p) s = p"

text \<open>The whitespace that \<^verbatim>\<open>int\<close> drops around the number: the ASCII
  whitespace 9-13 and 32, and of the code points from 128 on those that are spaces
  (133 and 160), which the conversion of a non-ASCII text turns into blanks first. The
  separators 28-31, which \<^verbatim>\<open>str.strip\<close> removes, are not dropped by
  \<^verbatim>\<open>int\<close>: a text that holds one is refused.\<close>

definition int_space :: "char \<Rightarrow> bool" where
  "int_space c \<longleftrightarrow>
     (let n = (of_char c :: nat) in (9 \<le> n \<and> n \<le> 13) \<or> n = 32 \<or> n = 133 \<or> n = 160)"

definition int_strip :: "string \<Rightarrow> string" where
  "int_strip s = rev (dropWhile int_space (rev (dropWhile int_space s)))"

text \<open>\<^verbatim>\<open>int(s, b)\<close> for \<open>b\<close> 10 or 16: surrounding whitespace is dropped, one sign is
  read, base 16 accepts a prefix \<^verbatim>\<open>0x\<close> or \<^verbatim>\<open>0X\<close> (and one underscore after it),
  then the digits. A decimal text of more than 4300 digits is refused (the default
  limit of CPython since 3.11). Every failure is \<^verbatim>\<open>ValueError\<close>.\<close>

definition py_int :: "nat \<Rightarrow> string \<Rightarrow> pyexc + int" where
  "py_int b s =
     (let t = int_strip s;
          neg = startswith t ''-'';
          t1 = (if startswith t ''+'' \<or> startswith t ''-'' then tl t else t);
          t2 = (if b = 16 \<and> (startswith t1 ''0x'' \<or> startswith t1 ''0X'')
                then (if startswith (drop 2 t1) ''_'' then drop 3 t1 else drop 2 t1)
                else t1)
      in case digits_acc b True 0 t2 of
           None \<Rightarrow> Inl ValueError
         | Some n \<Rightarrow>
             if b = 10 \<and> max_str_digits < length (filter (\<lambda>c. c \<noteq> CHR ''_'') t2)
             then Inl ValueError
             else Inr (if neg then - int n else int n))"

definition hex_char :: "nat \<Rightarrow> char" where
  "hex_char d = ''0123456789abcdef'' ! d"

fun hex_digits :: "nat \<Rightarrow> string" where
  "hex_digits n =
     (if n < 16 then [hex_char n] else hex_digits (n div 16) @ [hex_char (n mod 16)])"

declare hex_digits.simps [simp del]

text \<open>\<^verbatim>\<open>hex(i)\<close>: sign, \<^verbatim>\<open>0x\<close>, lowercase digits.\<close>

definition py_hex :: "int \<Rightarrow> string" where
  "py_hex i = (if i < 0 then ''-0x'' @ hex_digits (nat (- i)) else ''0x'' @ hex_digits (nat i))"

text \<open>\<^verbatim>\<open>s.upper()\<close> on ASCII text (the source applies it to the output of
  \<^verbatim>\<open>hex\<close> only).\<close>

definition upper_char :: "char \<Rightarrow> char" where
  "upper_char c =
     (let n = (of_char c :: nat)
      in if 97 \<le> n \<and> n \<le> 122 then ''ABCDEFGHIJKLMNOPQRSTUVWXYZ'' ! (n - 97) else c)"

definition upper :: "string \<Rightarrow> string" where
  "upper s = map upper_char s"

fun dec_digits :: "nat \<Rightarrow> string" where
  "dec_digits n =
     (if n < 10 then [hex_char n] else dec_digits (n div 10) @ [hex_char (n mod 10)])"

declare dec_digits.simps [simp del]

text \<open>\<^verbatim>\<open>str(i)\<close> of an \<^verbatim>\<open>int\<close>.\<close>

definition str_int :: "int \<Rightarrow> string" where
  "str_int i = (if i < 0 then ''-'' @ dec_digits (nat (- i)) else dec_digits (nat i))"

text \<open>ASCII whitespace, which \<^verbatim>\<open>bytes.fromhex\<close> skips between two bytes.\<close>

definition ascii_space :: "char \<Rightarrow> bool" where
  "ascii_space c \<longleftrightarrow> (let n = (of_char c :: nat) in (9 \<le> n \<and> n \<le> 13) \<or> n = 32)"

definition hex_value :: "char \<Rightarrow> nat option" where
  "hex_value c = (if hexdigit c then digit_value c else None)"

text \<open>\<^verbatim>\<open>bytes.fromhex(s)\<close>: two hexadecimal digits per byte, first pair first;
  anything else is \<^verbatim>\<open>ValueError\<close>.\<close>

fun fromhex :: "string \<Rightarrow> pyexc + byte list" where
  "fromhex [] = Inr []"
| "fromhex [a] = (if ascii_space a then Inr [] else Inl ValueError)"
| "fromhex (a # b # rest) =
     (if ascii_space a then fromhex (b # rest)
      else (case (hex_value a, hex_value b) of
              (Some x, Some y) \<Rightarrow>
                (case fromhex rest of
                   Inl e \<Rightarrow> Inl e
                 | Inr bs \<Rightarrow> Inr (of_nat (16 * x + y) # bs))
            | _ \<Rightarrow> Inl ValueError))"

section \<open>The schema objects of the cantools library\<close>

text \<open>
  The source reads the schema through the cantools library, which is not part of the
  repository. What it uses of the library's objects is modelled as data: of a signal its
  name, its \<^verbatim>\<open>choices\<close> table (a dict or \<^verbatim>\<open>None\<close>) and its \<^verbatim>\<open>unit\<close>; of a
  message its \<^verbatim>\<open>frame_id\<close>, \<^verbatim>\<open>name\<close>, signals, and the method
  \<^verbatim>\<open>decode(data, allow_truncated=True)\<close>, taken as a function from the payload to
  either an exception or the decoded dict in its iteration order. A decoded value is an
  \<^verbatim>\<open>int\<close>, a \<^verbatim>\<open>float\<close> (identified by its \<^verbatim>\<open>repr\<close> text) or a
  \<^verbatim>\<open>NamedSignalValue\<close> (label and number).
\<close>

datatype sigval = IntV int | FloatV string | NamedV string int

text \<open>A Python \<^verbatim>\<open>float\<close> held by an output record: the conversion of an
  \<^verbatim>\<open>int\<close>, or a float of the library. No float arithmetic is modelled.\<close>

datatype pyfloat = Float_of_int int | Float_repr string

record signal =
  sig_name :: string
  sig_choices :: "(int \<times> string) list option"
  sig_unit :: "string option"

record message =
  frame_id :: int
  name :: string
  signals :: "signal list"
  decode :: "byte list \<Rightarrow> pyexc + (string \<times> sigval) list"

text \<open>\<^verbatim>\<open>message.get_signal_by_name(name)\<close>: the signal of that name,
  \<^verbatim>\<open>KeyError\<close> when there is none.\<close>

definition get_signal_by_name :: "message \<Rightarrow> string \<Rightarrow> pyexc + signal" where
  "get_signal_by_name m n =
     (case find (\<lambda>s. sig_name s = n) (signals m) of
        None \<Rightarrow> Inl KeyError
      | Some s \<Rightarrow> Inr s)"

text \<open>Truth value of \<^verbatim>\<open>signal.choices\<close>: false for \<^verbatim>\<open>None\<close> and for the empty
  dict.\<close>

definition has_choices :: "signal \<Rightarrow> bool" where
  "has_choices s \<longleftrightarrow> (case sig_choices s of None \<Rightarrow> False | Some d \<Rightarrow> d \<noteq> [])"

text \<open>\<^verbatim>\<open>str(value)\<close>: a \<^verbatim>\<open>NamedSignalValue\<close> prints its label.\<close>

fun py_str :: "sigval \<Rightarrow> string" where
  "py_str (IntV i) = str_int i"
| "py_str (FloatV r) = r"
| "py_str (NamedV l v) = l"

text \<open>\<^verbatim>\<open>float(value)\<close>: an \<^verbatim>\<open>int\<close> too large for a double is
  \<^verbatim>\<open>OverflowError\<close>; a \<^verbatim>\<open>NamedSignalValue\<close> has no conversion,
  \<^verbatim>\<open>TypeError\<close>.\<close>

fun py_float :: "sigval \<Rightarrow> pyexc + pyfloat" where
  "py_float (IntV i) =
     (if \<bar>i\<bar> < 2 ^ 1024 - 2 ^ 970 then Inr (Float_of_int i) else Inl OverflowError)"
| "py_float (FloatV r) = Inr (Float_repr r)"
| "py_float (NamedV l v) = Inl TypeError"

section \<open>decode_can_data\<close>

text \<open>One entry of \<^verbatim>\<open>decoded_data\<close>; \<^verbatim>\<open>None\<close> is \<open>None\<close>.\<close>

record decoded =
  timestamp :: string
  can_id :: string
  message_name :: string
  signal_name :: "string option"
  raw_value :: "sigval option"
  physical_value :: "pyfloat option"
  state :: "string option"
  unit :: "string option"

text \<open>One row of \<^verbatim>\<open>csv.DictReader\<close>: the three fields the source reads; a field
  is \<^verbatim>\<open>None\<close> when the line is shorter than the header.\<close>

record csv_row =
  row_timestamp :: "string option"
  row_can_id :: "string option"
  row_data :: "string option"

record csv_file =
  fieldnames :: "string list option"
  rows :: "csv_row list"

record run_state =
  decoded_data :: "decoded list"
  row_count :: nat
  skipped_rows :: nat

datatype outcome = Done | Raised pyexc

text \<open>Line 68.\<close>

definition parse_can_id :: "string \<Rightarrow> pyexc + int" where
  "parse_can_id can_id_str =
     (if startswith can_id_str ''0x'' then py_int 16 can_id_str else py_int 10 can_id_str)"

text \<open>Lines 56-81, up to the payload bytes. \<open>Inl e\<close>: exception \<open>e\<close> leaves the row's
  \<^verbatim>\<open>try\<close> body; \<open>Inr None\<close>: one of the three \<^verbatim>\<open>continue\<close> exits, which count
  the row as skipped; \<open>Inr (Some (timestamp, can_id, data_bytes))\<close>: the row goes on to
  the schema lookup. A field that is \<^verbatim>\<open>None\<close> or empty fails the test of line 61.
  The two inner handlers catch \<^verbatim>\<open>ValueError\<close> only.\<close>

definition parse_row :: "csv_row \<Rightarrow> pyexc + (string \<times> int \<times> byte list) option" where
  "parse_row row =
     (case row_timestamp row of
        None \<Rightarrow> Inl AttributeError
      | Some ts_field \<Rightarrow>
     (case row_can_id row of
        None \<Rightarrow> Inl AttributeError
      | Some id_field \<Rightarrow>
     (let ts = remove_quotes (strip ts_field);
          can_id_str = remove_quotes (strip id_field)
      in case row_data row of
           None \<Rightarrow> Inr None
         | Some data \<Rightarrow>
     (if ts = [] \<or> can_id_str = [] \<or> data = [] then Inr None
      else
     (case parse_can_id can_id_str of
        Inl e \<Rightarrow> (if e = ValueError then Inr None else Inl e)
      | Inr cid \<Rightarrow>
     (case normalize_data_field data of
        Inl e \<Rightarrow> (if e = ValueError then Inr None else Inl e)
      | Inr normalized_data \<Rightarrow>
     (case fromhex normalized_data of
        Inl e \<Rightarrow> (if e = ValueError then Inr None else Inl e)
      | Inr data_bytes \<Rightarrow> Inr (Some (ts, cid, data_bytes)))))))))"

text \<open>Lines 84-88: the first message with that frame id.\<close>

definition find_message :: "message list \<Rightarrow> int \<Rightarrow> message option" where
  "find_message db cid = find (\<lambda>msg. frame_id msg = cid) db"

text \<open>Lines 92-101.\<close>

definition unknown_record :: "string \<Rightarrow> int \<Rightarrow> decoded" where
  "unknown_record ts cid =
     \<lparr>timestamp = ts, can_id = py_hex cid,
      message_name = ''Unknown_'' @ upper (drop 2 (py_hex cid)),
      signal_name = None, raw_value = None, physical_value = None, state = None,
      unit = None\<rparr>"

text \<open>Lines 125-134, the record of the \<^verbatim>\<open>except Exception\<close> handler.\<close>

definition fallback_record :: "string \<Rightarrow> int \<Rightarrow> message \<Rightarrow> decoded" where
  "fallback_record ts cid m =
     \<lparr>timestamp = ts, can_id = py_hex cid, message_name = name m,
      signal_name = None, raw_value = None, physical_value = None, state = None,
      unit = None\<rparr>"

text \<open>Lines 108-122: the record of one decoded signal, or the exception raised on
  the way (\<^verbatim>\<open>get_signal_by_name\<close>, \<^verbatim>\<open>float\<close>).\<close>

definition signal_record ::
    "string \<Rightarrow> int \<Rightarrow> message \<Rightarrow> string \<times> sigval \<Rightarrow> pyexc + decoded" where
  "signal_record ts cid m item =
     (case item of (sn, v) \<Rightarrow>
     (case get_signal_by_name m sn of
        Inl e \<Rightarrow> Inl e
      | Inr sg \<Rightarrow>
     (let st = (if has_choices sg then Some (py_str v) else None)
      in case (if \<not> has_choices sg then map_sum id Some (py_float v) else Inr None) of
           Inl e \<Rightarrow> Inl e
         | Inr pv \<Rightarrow>
             Inr \<lparr>timestamp = ts, can_id = py_hex cid, message_name = name m,
                  signal_name = Some sn, raw_value = Some v, physical_value = pv,
                  state = st,
                  unit = Some (case sig_unit sg of None \<Rightarrow> [] | Some u \<Rightarrow> u)\<rparr>)))"

text \<open>Lines 107-122: the loop over the decoded dict, appending to \<^verbatim>\<open>decoded_data\<close>
  until an exception leaves it.\<close>

fun emit_signals ::
    "string \<Rightarrow> int \<Rightarrow> message \<Rightarrow> (string \<times> sigval) list \<Rightarrow> decoded list
       \<Rightarrow> outcome \<times> decoded list" where
  "emit_signals ts cid m [] acc = (Done, acc)"
| "emit_signals ts cid m (item # items) acc =
     (case signal_record ts cid m item of
        Inl e \<Rightarrow> (Raised e, acc)
      | Inr r \<Rightarrow> emit_signals ts cid m items (acc @ [r]))"

text \<open>Lines 83-134: schema lookup and decoding of one frame; the list is
  \<^verbatim>\<open>decoded_data\<close> before and after. A message object is truthy, so
  \<^verbatim>\<open>not message\<close> holds only when the search found none. Both handlers end
  normally, so the outcome is \<open>Done\<close> on every path; the type still has room for an
  exception that would reach the handler of line 136.\<close>

definition decode_frame ::
    "message list \<Rightarrow> string \<Rightarrow> int \<Rightarrow> byte list \<Rightarrow> decoded list
       \<Rightarrow> outcome \<times> decoded list" where
  "decode_frame db ts cid data_bytes acc =
     (case find_message db cid of
        None \<Rightarrow> (Done, acc @ [unknown_record ts cid])
      | Some m \<Rightarrow>
          (case decode m data_bytes of
             Inl e \<Rightarrow> (Done, acc @ [fallback_record ts cid m])
           | Inr decoded_signals \<Rightarrow>
               (case emit_signals ts cid m decoded_signals acc of
                  (Done, acc') \<Rightarrow> (Done, acc')
                | (Raised e, acc') \<Rightarrow> (Done, acc' @ [fallback_record ts cid m]))))"

text \<open>Lines 54-139: one iteration of the row loop.\<close>

definition process_row :: "message list \<Rightarrow> csv_row \<Rightarrow> run_state \<Rightarrow> run_state" where
  "process_row db row st =
     (let st1 = st\<lparr>row_count := row_count st + 1\<rparr>
      in case parse_row row of
           Inl e \<Rightarrow> st1\<lparr>skipped_rows := skipped_rows st1 + 1\<rparr>
         | Inr None \<Rightarrow> st1\<lparr>skipped_rows := skipped_rows st1 + 1\<rparr>
         | Inr (Some (ts, cid, data_bytes)) \<Rightarrow>
             (case decode_frame db ts cid data_bytes (decoded_data st1) of
                (Done, dd) \<Rightarrow> st1\<lparr>decoded_data := dd\<rparr>
              | (Raised e, dd) \<Rightarrow>
                  st1\<lparr>decoded_data := dd, skipped_rows := skipped_rows st1 + 1\<rparr>))"

text \<open>Line 50: \<^verbatim>\<open>col in reader.fieldnames\<close> for the three columns; on an empty file
  \<^verbatim>\<open>fieldnames\<close> is \<^verbatim>\<open>None\<close> and the test raises \<^verbatim>\<open>TypeError\<close>.\<close>

definition has_columns :: "string list option \<Rightarrow> pyexc + bool" where
  "has_columns fns =
     (case fns of
        None \<Rightarrow> Inl TypeError
      | Some hs \<Rightarrow> Inr (list_all (\<lambda>col. col \<in> set hs) [''timestamp'', ''can_id'', ''data'']))"

definition initial_state :: run_state where
  "initial_state = \<lparr>decoded_data = [], row_count = 0, skipped_rows = 0\<rparr>"

text \<open>Lines 43-145 on an opened file: how the function ends and the values of its three
  local variables at that moment.\<close>

definition decode_can_data_run :: "csv_file \<Rightarrow> message list \<Rightarrow> outcome \<times> run_state" where
  "decode_can_data_run f db =
     (case has_columns (fieldnames f) of
        Inl e \<Rightarrow> (Raised e, initial_state)
      | Inr ok \<Rightarrow>
          if \<not> ok then (Raised ValueError, initial_state)
          else (Done, foldl (\<lambda>st row. process_row db row st) initial_state (rows f)))"

text \<open>What the caller of \<^verbatim>\<open>decode_can_data\<close> gets: the list, or the exception raised
  again by the outer handler (lines 143-145).\<close>

definition decode_can_data :: "csv_file \<Rightarrow> message list \<Rightarrow> pyexc + decoded list" where
  "decode_can_data f db =
     (case decode_can_data_run f db of
        (Done, st) \<Rightarrow> Inr (decoded_data st)
      | (Raised e, st) \<Rightarrow> Inl e)"

section \<open>save_decoded_data\<close>

definition or_na :: "string option \<Rightarrow> string" where
  "or_na x = (case x of None \<Rightarrow> ''N/A'' | Some s \<Rightarrow> if s = [] then ''N/A'' else s)"

text \<open>Lines 155-164: the cells of one output line in header order. The three-decimal
  formatting of a float is a parameter.\<close>

definition save_row :: "(pyfloat \<Rightarrow> string) \<Rightarrow> decoded \<Rightarrow> string list" where
  "save_row fmt3 row =
     [timestamp row, can_id row, message_name row,
      or_na (signal_name row),
      (case raw_value row of None \<Rightarrow> ''N/A'' | Some v \<Rightarrow> py_str v),
      (case physical_value row of None \<Rightarrow> ''N/A'' | Some x \<Rightarrow> fmt3 x),
      or_na (state row),
      (case unit row of None \<Rightarrow> [] | Some u \<Rightarrow> u)]"

section \<open>Example schema\<close>

text \<open>
  Two messages for the concrete evaluations below. \<open>engine_msg\<close> has two unscaled
  signals, \<^verbatim>\<open>RPM\<close> in bytes 0-1 (little endian) and \<^verbatim>\<open>Temp\<close> in byte 2; its
  \<^verbatim>\<open>decode\<close> leaves out the signals that lie beyond a shorter payload, as cantools does
  with \<^verbatim>\<open>allow_truncated=True\<close>. \<open>status_msg\<close> has one signal \<^verbatim>\<open>Status\<close> in
  byte 0 with the choices table \<^verbatim>\<open>{2: 'FAULT'}\<close>; its \<^verbatim>\<open>decode\<close> gives the label for
  a raw value in the table and the number otherwise.
\<close>

definition engine_msg :: message where
  "engine_msg =
     \<lparr>frame_id = 0x123, name = ''EngineData'',
      signals = [\<lparr>sig_name = ''RPM'', sig_choices = None, sig_unit = Some ''rpm''\<rparr>,
                 \<lparr>sig_name = ''Temp'', sig_choices = None, sig_unit = None\<rparr>],
      decode = (\<lambda>bs. case bs of
                  b0 # b1 # b2 # _ \<Rightarrow>
                    Inr [(''RPM'', IntV (uint b0 + 256 * uint b1)), (''Temp'', IntV (uint b2))]
                | [b0, b1] \<Rightarrow> Inr [(''RPM'', IntV (uint b0 + 256 * uint b1))]
                | _ \<Rightarrow> Inr [])\<rparr>"

definition status_msg :: message where
  "status_msg =
     \<lparr>frame_id = 0x300, name = ''Status'',
      signals = [\<lparr>sig_name = ''Status'', sig_choices = Some [(2, ''FAULT'')],
                  sig_unit = None\<rparr>],
      decode = (\<lambda>bs. case bs of
                  [] \<Rightarrow> Inr []
                | b0 # _ \<Rightarrow>
                    Inr [(''Status'',
                          if uint b0 = 2 then NamedV ''FAULT'' 2 else IntV (uint b0))])\<rparr>"

section \<open>Uppercase hexadecimal text\<close>

text \<open>The characters \<^verbatim>\<open>0-9A-F\<close>.\<close>

definition upper_hexdigit :: "char \<Rightarrow> bool" where
  "upper_hexdigit c \<longleftrightarrow>
     (let n = (of_char c :: nat) in (48 \<le> n \<and> n \<le> 57) \<or> (65 \<le> n \<and> n \<le> 70))"

section \<open>Properties of normalize_data_field\<close>

lemma hexdigit_not_space: "hexdigit c \<Longrightarrow> \<not> isspace c"
  by (auto simp: hexdigit_def isspace_def Let_def)

lemma hexdigit_not_quote: "hexdigit c \<Longrightarrow> c \<noteq> CHR 0x22"
  by (auto simp: hexdigit_def)

lemma hexdigit_not_x: "hexdigit c \<Longrightarrow> c \<noteq> CHR ''x'' \<and> c \<noteq> CHR ''X''"
  by (auto simp: hexdigit_def)

lemma hexdigit_not_newline: "hexdigit c \<Longrightarrow> c \<noteq> CHR 0x0A"
  by (auto simp: hexdigit_def)

lemma dropWhile_none: "\<forall>c \<in> set s. \<not> P c \<Longrightarrow> dropWhile P s = s"
  by (cases s) auto

lemma strip_no_space:
  assumes "\<forall>c \<in> set s. \<not> isspace c"
  shows "strip s = s"
proof -
  have a: "dropWhile isspace s = s"
    using assms by (rule dropWhile_none)
  have b: "dropWhile isspace (rev s) = rev s"
    using assms dropWhile_none [of "rev s" isspace] by simp
  show ?thesis by (simp add: strip_def a b)
qed

lemma remove_0x_hex:
  "list_all hexdigit s \<Longrightarrow> remove_0x s = s"
  by (induction s rule: remove_0x.induct) (auto dest: hexdigit_not_x)

lemma remove_whitespace_set:
  "set (remove_whitespace s) = {c \<in> set s. \<not> isspace c}"
  by (auto simp: remove_whitespace_def)

lemma match_hex_iff:
  assumes "\<forall>c \<in> set s. c \<noteq> CHR 0x0A"
  shows "match_hex s \<longleftrightarrow> s \<noteq> [] \<and> list_all hexdigit s"
proof (cases "s = []")
  case True
  then show ?thesis by (simp add: match_hex_def)
next
  case False
  then have "last s \<in> set s" by simp
  with assms have "last s \<noteq> CHR 0x0A" by blast
  then show ?thesis by (simp add: match_hex_def)
qed

lemma normalize_hex_fixed:
  assumes "t \<noteq> []" and "even (length t)" and "list_all hexdigit t"
  shows "normalize_data_field t = Inr t"
proof -
  have ns: "\<forall>c \<in> set t. \<not> isspace c"
    using assms(3) by (auto simp: list_all_iff dest: hexdigit_not_space)
  have nq: "\<forall>c \<in> set t. c \<noteq> CHR 0x22"
    using assms(3) by (auto simp: list_all_iff dest: hexdigit_not_quote)
  have nn: "\<forall>c \<in> set t. c \<noteq> CHR 0x0A"
    using assms(3) by (auto simp: list_all_iff dest: hexdigit_not_newline)
  have s1: "strip t = t" using ns by (rule strip_no_space)
  have s2: "remove_quotes t = t"
    using nq by (simp add: remove_quotes_def filter_id_conv)
  have s3: "remove_whitespace t = t"
    using ns by (simp add: remove_whitespace_def filter_id_conv)
  have s4: "remove_0x t = t" using assms(3) by (rule remove_0x_hex)
  have m: "match_hex t" using assms(1,3) nn by (simp add: match_hex_iff)
  show ?thesis
    using assms(2) m by (simp add: normalize_data_field_def s1 s2 s3 s4 Let_def)
qed

lemma remove_0x_subset: "set (remove_0x s) \<subseteq> set s"
  by (induction s rule: remove_0x.induct) auto

lemma normalize_result:
  assumes "normalize_data_field s = Inr t"
  shows "t \<noteq> [] \<and> even (length t) \<and> list_all hexdigit t"
proof -
  let ?d = "remove_0x (remove_whitespace (remove_quotes (strip s)))"
  from assms have t: "t = ?d" and ev: "even (length ?d)" and m: "match_hex ?d"
    by (auto simp: normalize_data_field_def Let_def split: if_splits)
  have "\<forall>c \<in> set ?d. \<not> isspace c"
    using remove_0x_subset [of "remove_whitespace (remove_quotes (strip s))"]
    by (auto simp: remove_whitespace_set)
  then have "\<forall>c \<in> set ?d. c \<noteq> CHR 0x0A"
    by (auto simp: isspace_def)
  with m have "?d \<noteq> [] \<and> list_all hexdigit ?d" by (simp add: match_hex_iff)
  with t ev show ?thesis by simp
qed

lemma normalize_output_fixed:
  "normalize_data_field s = Inr t \<Longrightarrow>
     normalize_data_field t = Inr t \<and> even (length t) \<and> list_all hexdigit t"
  using normalize_result [of s t] normalize_hex_fixed [of t] by blast

text \<open>
  Claim C8, as amended. Every string that is not empty, has even length and holds
  hexadecimal digits only (so no whitespace, no quote and no \<^verbatim>\<open>0x\<close>) is accepted by
  the normalization and returned unchanged. Every result of the normalization has that
  shape (\<open>normalize_result\<close>), so normalizing twice is normalizing once.
\<close>

theorem normalize_data_field_fixed_point:
  assumes "t \<noteq> []" and "even (length t)" and "list_all hexdigit t"
  shows "normalize_data_field t = Inr t"
  using assms by (rule normalize_hex_fixed)

theorem normalize_data_field_fixed_point_witness:
  "''E803'' \<noteq> [] \<and> even (length ''E803'') \<and> list_all hexdigit ''E803'' \<and>
   normalize_data_field ''E803'' = Inr ''E803''"
proof -
  have h1: "''E803'' \<noteq> []" by simp
  have h2: "even (length ''E803'')" by simp
  have h3: "list_all hexdigit ''E803''" by (simp add: hexdigit_def)
  from normalize_data_field_fixed_point [OF h1 h2 h3] show ?thesis using h1 h2 h3 by simp
qed

text \<open>
  Claim C8 as stated fails: the empty string has even length, holds hexadecimal digits
  only and has no whitespace, quote or \<^verbatim>\<open>0x\<close>, and the normalization refuses it
  (the regular expression of line 35 asks for one digit at least).
\<close>

theorem empty_string_rejected_counterexample:
  "even (length ([] :: string)) \<and> list_all hexdigit [] \<and>
   remove_0x (remove_whitespace (remove_quotes (strip []))) = [] \<and>
   normalize_data_field [] = Inl ValueError"
  by (simp add: normalize_data_field_def strip_def remove_quotes_def remove_whitespace_def
      match_hex_def)

section \<open>Evaluation on the example schema\<close>

lemmas eval_defs = decode_frame_def find_message_def engine_msg_def status_msg_def
  signal_record_def get_signal_by_name_def has_choices_def py_hex_def hex_digits.simps
  hex_char_def fallback_record_def unknown_record_def upper_def upper_char_def
  str_int_def dec_digits.simps

section \<open>The frame step\<close>

lemma signal_record_fields:
  assumes "signal_record ts cid m (sn, v) = Inr r"
  shows "timestamp r = ts \<and> can_id r = py_hex cid \<and> message_name r = name m \<and>
         signal_name r = Some sn \<and> raw_value r = Some v"
  using assms
  by (auto simp: signal_record_def Let_def split: sum.splits if_splits)

lemma fallback_record_fields:
  "timestamp (fallback_record ts cid m) = ts \<and>
   message_name (fallback_record ts cid m) = name m \<and>
   signal_name (fallback_record ts cid m) = None \<and>
   raw_value (fallback_record ts cid m) = None \<and>
   physical_value (fallback_record ts cid m) = None \<and>
   state (fallback_record ts cid m) = None"
  by (simp add: fallback_record_def)

lemma emit_signals_snd:
  "snd (emit_signals ts cid m items acc) =
     acc @ map (\<lambda>it. projr (signal_record ts cid m it))
             (takeWhile (\<lambda>it. \<not> isl (signal_record ts cid m it)) items)"
  by (induction items arbitrary: acc) (auto split: sum.splits)

lemma emit_signals_fst:
  "fst (emit_signals ts cid m items acc) = Done \<longleftrightarrow>
     list_all (\<lambda>it. \<not> isl (signal_record ts cid m it)) items"
  by (induction items arbitrary: acc) (auto split: sum.splits)

lemma decode_frame_found:
  assumes "find_message db cid = Some m"
  shows "decode_frame db ts cid bs acc =
     (Done, acc @
       (case decode m bs of
          Inl e \<Rightarrow> [fallback_record ts cid m]
        | Inr items \<Rightarrow>
            map (\<lambda>it. projr (signal_record ts cid m it))
              (takeWhile (\<lambda>it. \<not> isl (signal_record ts cid m it)) items)
            @ (if list_all (\<lambda>it. \<not> isl (signal_record ts cid m it)) items then []
               else [fallback_record ts cid m])))"
proof (cases "decode m bs")
  case (Inl e)
  with assms show ?thesis by (simp add: decode_frame_def)
next
  case (Inr items)
  obtain oc acc' where e: "emit_signals ts cid m items acc = (oc, acc')"
    by (cases "emit_signals ts cid m items acc")
  from e have a: "acc' = acc @ map (\<lambda>it. projr (signal_record ts cid m it))
             (takeWhile (\<lambda>it. \<not> isl (signal_record ts cid m it)) items)"
    using emit_signals_snd [of ts cid m items acc] by simp
  from e have b: "oc = Done \<longleftrightarrow> list_all (\<lambda>it. \<not> isl (signal_record ts cid m it)) items"
    using emit_signals_fst [of ts cid m items acc] by simp
  show ?thesis
  proof (cases oc)
    case Done
    with assms Inr e a b show ?thesis by (simp add: decode_frame_def)
  next
    case (Raised x)
    with assms Inr e a b show ?thesis by (simp add: decode_frame_def)
  qed
qed

lemma decode_frame_not_found:
  assumes "find_message db cid = None"
  shows "decode_frame db ts cid bs acc = (Done, acc @ [unknown_record ts cid])"
  using assms by (simp add: decode_frame_def)

lemma good_item_record:
  assumes "it \<in> set (takeWhile (\<lambda>it. \<not> isl (signal_record ts cid m it)) items)"
  shows "signal_record ts cid m it = Inr (projr (signal_record ts cid m it))"
proof -
  from assms have "\<not> isl (signal_record ts cid m it)"
    by (rule set_takeWhileD [THEN conjunct2])
  then show ?thesis by (cases "signal_record ts cid m it") auto
qed

section \<open>Claims about the frame step\<close>

text \<open>
  Claim C1, as amended. For a frame whose id is in the schema the frame step never
  raises and appends: when the library's \<^verbatim>\<open>decode\<close> raises, the one fallback record;
  otherwise one record for each entry of the decoded dict, in its order, up to the first
  entry whose conversion raises, followed by the fallback record if there was such an
  entry. Every record keeps the message name, and its \<^verbatim>\<open>raw_value\<close> is absent exactly
  when its \<^verbatim>\<open>signal_name\<close> is: there is no record that names a signal and has no value,
  and a signal that the library left out of the dict gets no record at all.
\<close>

theorem decode_frame_known_id:
  assumes "find_message db cid = Some m"
  shows "\<exists>recs. decode_frame db ts cid bs acc = (Done, acc @ recs) \<and>
     (\<forall>r \<in> set recs. message_name r = name m \<and>
        (raw_value r = None \<longleftrightarrow> signal_name r = None)) \<and>
     (case decode m bs of
        Inl e \<Rightarrow> recs = [fallback_record ts cid m]
      | Inr items \<Rightarrow>
          recs = map (\<lambda>it. projr (signal_record ts cid m it))
                   (takeWhile (\<lambda>it. \<not> isl (signal_record ts cid m it)) items)
                 @ (if list_all (\<lambda>it. \<not> isl (signal_record ts cid m it)) items then []
                    else [fallback_record ts cid m]) \<and>
          (list_all (\<lambda>it. \<not> isl (signal_record ts cid m it)) items \<longrightarrow>
             map signal_name recs = map (\<lambda>it. Some (fst it)) items \<and>
             map raw_value recs = map (\<lambda>it. Some (snd it)) items))"
proof -
  let ?ok = "\<lambda>it. \<not> isl (signal_record ts cid m it)"
  let ?rec = "\<lambda>it. projr (signal_record ts cid m it)"
  define recs where "recs =
     (case decode m bs of
        Inl e \<Rightarrow> [fallback_record ts cid m]
      | Inr items \<Rightarrow> map ?rec (takeWhile ?ok items)
          @ (if list_all ?ok items then [] else [fallback_record ts cid m]))"
  have run: "decode_frame db ts cid bs acc = (Done, acc @ recs)"
    unfolding recs_def using assms by (rule decode_frame_found)
  have good: "message_name (?rec it) = name m \<and> signal_name (?rec it) = Some (fst it) \<and>
      raw_value (?rec it) = Some (snd it)"
    if "?ok it" for it
  proof -
    from that have "signal_record ts cid m (fst it, snd it) = Inr (?rec it)"
      by (cases "signal_record ts cid m it") auto
    then show ?thesis using signal_record_fields by blast
  qed
  have fields: "message_name r = name m \<and> (raw_value r = None \<longleftrightarrow> signal_name r = None)"
    if "r \<in> set recs" for r
  proof (cases "decode m bs")
    case (Inl e)
    with that show ?thesis by (simp add: recs_def fallback_record_def)
  next
    case (Inr items)
    with that consider
        (a) it where "it \<in> set (takeWhile ?ok items)" "r = ?rec it"
      | (b) "r = fallback_record ts cid m"
      by (auto simp: recs_def split: if_splits)
    then show ?thesis
    proof cases
      case a
      then have "?ok it" by (auto dest: set_takeWhileD)
      with a good show ?thesis by simp
    next
      case b
      then show ?thesis by (simp add: fallback_record_def)
    qed
  qed
  have shape: "(case decode m bs of
        Inl e \<Rightarrow> recs = [fallback_record ts cid m]
      | Inr items \<Rightarrow>
          recs = map ?rec (takeWhile ?ok items)
                 @ (if list_all ?ok items then [] else [fallback_record ts cid m]) \<and>
          (list_all ?ok items \<longrightarrow>
             map signal_name recs = map (\<lambda>it. Some (fst it)) items \<and>
             map raw_value recs = map (\<lambda>it. Some (snd it)) items))"
  proof (cases "decode m bs")
    case (Inl e)
    then show ?thesis by (simp add: recs_def)
  next
    case (Inr items)
    have "map signal_name recs = map (\<lambda>it. Some (fst it)) items \<and>
          map raw_value recs = map (\<lambda>it. Some (snd it)) items"
      if all: "list_all ?ok items"
    proof -
      from all have tw: "takeWhile ?ok items = items"
        by (simp add: list_all_iff takeWhile_eq_all_conv)
      from all have "\<forall>it \<in> set items. ?ok it" by (simp add: list_all_iff)
      with good have g: "\<forall>it \<in> set items. signal_name (?rec it) = Some (fst it) \<and>
          raw_value (?rec it) = Some (snd it)" by blast
      have r: "recs = map ?rec items"
        using Inr all by (simp add: recs_def tw)
      from g have "map signal_name (map ?rec items) = map (\<lambda>it. Some (fst it)) items"
        by simp
      moreover from g have "map raw_value (map ?rec items) = map (\<lambda>it. Some (snd it)) items"
        by simp
      ultimately show ?thesis unfolding r by blast
    qed
    with Inr show ?thesis by (simp add: recs_def)
  qed
  from run fields shape show ?thesis by blast
qed

theorem decode_frame_known_id_witness:
  "find_message [engine_msg] 0x123 = Some engine_msg \<and>
   fst (decode_frame [engine_msg] ''t'' 0x123 [0xE8, 0x03] []) = Done"
proof -
  have h: "find_message [engine_msg] 0x123 = Some engine_msg"
    by (simp add: find_message_def engine_msg_def)
  from decode_frame_known_id [OF h, of "''t''" "[0xE8, 0x03]" "[]"]
  show ?thesis using h by auto
qed

text \<open>
  Claim C1 as stated fails: \<open>engine_msg\<close> declares the signals \<^verbatim>\<open>RPM\<close> and
  \<^verbatim>\<open>Temp\<close>; on the two-byte payload \<^verbatim>\<open>E8 03\<close> the span of \<^verbatim>\<open>Temp\<close> lies beyond
  the payload, and the frame step emits the record of \<^verbatim>\<open>RPM\<close> only.
\<close>

theorem truncated_signal_counterexample:
  "map sig_name (signals engine_msg) = [''RPM'', ''Temp''] \<and>
   map signal_name (snd (decode_frame [engine_msg] ''t'' 0x123 [0xE8, 0x03] [])) =
     [Some ''RPM'']"
  by (simp add: eval_defs)

text \<open>
  Claim C2, as amended. The frame step never raises, and it appends no record exactly
  when the id is in the schema and the library's \<^verbatim>\<open>decode\<close> returns an empty dict;
  in every other case it appends at least one record.
\<close>

theorem decode_frame_never_raises:
  "\<exists>recs. decode_frame db ts cid bs acc = (Done, acc @ recs) \<and>
     (recs = [] \<longleftrightarrow> (\<exists>m. find_message db cid = Some m \<and> decode m bs = Inr []))"
proof (cases "find_message db cid")
  case None
  then show ?thesis using decode_frame_not_found [OF None, of ts bs acc] by simp
next
  case (Some m)
  show ?thesis
  proof (cases "decode m bs")
    case (Inl e)
    with Some show ?thesis using decode_frame_found [OF Some, of ts bs acc] by simp
  next
    case (Inr items)
    show ?thesis
    proof (cases items)
      case Nil
      with Some Inr show ?thesis using decode_frame_found [OF Some, of ts bs acc] by simp
    next
      case (Cons it rest)
      with Some Inr show ?thesis
        using decode_frame_found [OF Some, of ts bs acc]
        by (cases "signal_record ts cid m it") auto
    qed
  qed
qed

theorem decode_frame_never_raises_witness:
  "fst (decode_frame [status_msg] ''t'' 0x200 [0x02] []) = Done \<and>
   snd (decode_frame [status_msg] ''t'' 0x200 [0x02] []) \<noteq> []"
proof -
  have h: "find_message [status_msg] 0x200 = None"
    by (simp add: find_message_def status_msg_def)
  from decode_frame_never_raises [of "[status_msg]" "''t''" "0x200" "[0x02]" "[]"]
  show ?thesis using h by auto
qed

text \<open>
  Claim C2 as stated fails: the row with id \<^verbatim>\<open>0x123\<close> and data \<^verbatim>\<open>00\<close> reaches
  the frame step with a payload of one byte; both signals of \<open>engine_msg\<close> lie beyond
  it, its \<^verbatim>\<open>decode\<close> returns the empty dict, and the frame step appends nothing. The
  row is counted as processed, not as skipped.
\<close>

theorem empty_decode_counterexample:
  "parse_row \<lparr>row_timestamp = Some ''12.5'', row_can_id = Some ''0x123'',
      row_data = Some ''00''\<rparr> = Inr (Some (''12.5'', 0x123, [0x00])) \<and>
   find_message [engine_msg] 0x123 = Some engine_msg \<and>
   decode_frame [engine_msg] ''12.5'' 0x123 [0x00] [] = (Done, []) \<and>
   process_row [engine_msg]
     \<lparr>row_timestamp = Some ''12.5'', row_can_id = Some ''0x123'', row_data = Some ''00''\<rparr>
     \<lparr>decoded_data = [], row_count = 0, skipped_rows = 0\<rparr> =
     \<lparr>decoded_data = [], row_count = 1, skipped_rows = 0\<rparr>"
  by (simp add: process_row_def parse_row_def parse_can_id_def py_int_def strip_def
      int_strip_def int_space_def isspace_def startswith_def digit_value_def
      max_str_digits_def remove_quotes_def normalize_data_field_def remove_whitespace_def
      match_hex_def hexdigit_def hex_value_def ascii_space_def eval_defs)

lemma signal_record_split:
  assumes "signal_record ts cid m (sn, v) = Inr r"
  shows "\<exists>sg. get_signal_by_name m sn = Inr sg \<and>
     (has_choices sg \<longrightarrow> state r = Some (py_str v) \<and> physical_value r = None) \<and>
     (\<not> has_choices sg \<longrightarrow>
        state r = None \<and> (\<exists>x. py_float v = Inr x \<and> physical_value r = Some x))"
proof (cases "get_signal_by_name m sn")
  case (Inl e)
  with assms show ?thesis by (simp add: signal_record_def)
next
  case (Inr sg)
  show ?thesis
  proof (cases "has_choices sg")
    case True
    with assms Inr show ?thesis by (auto simp: signal_record_def)
  next
    case False
    with assms Inr show ?thesis
      by (cases "py_float v") (auto simp: signal_record_def)
  qed
qed

text \<open>
  Claim C3, as amended. In the record of a decoded signal, when the signal's choices
  table is not empty the \<^verbatim>\<open>state\<close> is the text of the value the library returned
  (the label where the library matched an entry, the number's text where it did not) and
  \<^verbatim>\<open>physical_value\<close> is absent; when the signal has no choices table or an empty one,
  \<^verbatim>\<open>physical_value\<close> is that value converted to a float and \<^verbatim>\<open>state\<close> is absent.
  The test is on the table, not on the raw value having an entry in it.
\<close>

theorem signal_record_state_or_physical:
  assumes "signal_record ts cid m (sn, v) = Inr r"
  shows "\<exists>sg. get_signal_by_name m sn = Inr sg \<and>
     (has_choices sg \<longrightarrow> state r = Some (py_str v) \<and> physical_value r = None) \<and>
     (\<not> has_choices sg \<longrightarrow>
        state r = None \<and> (\<exists>x. py_float v = Inr x \<and> physical_value r = Some x))"
  using assms by (rule signal_record_split)

theorem signal_record_state_or_physical_witness:
  "signal_record ''t'' 0x123 engine_msg (''RPM'', IntV 1000) =
     Inr \<lparr>timestamp = ''t'', can_id = ''0x123'', message_name = ''EngineData'',
          signal_name = Some ''RPM'', raw_value = Some (IntV 1000),
          physical_value = Some (Float_of_int 1000), state = None,
          unit = Some ''rpm''\<rparr> \<and>
   (\<exists>sg. get_signal_by_name engine_msg ''RPM'' = Inr sg)"
proof -
  have h: "signal_record ''t'' 0x123 engine_msg (''RPM'', IntV 1000) =
     Inr \<lparr>timestamp = ''t'', can_id = ''0x123'', message_name = ''EngineData'',
          signal_name = Some ''RPM'', raw_value = Some (IntV 1000),
          physical_value = Some (Float_of_int 1000), state = None,
          unit = Some ''rpm''\<rparr>"
    by (simp add: eval_defs)
  from signal_record_state_or_physical [OF h] show ?thesis using h by blast
qed

text \<open>
  Claim C3 as stated fails: the signal \<^verbatim>\<open>Status\<close> has the choices table
  \<^verbatim>\<open>{2: 'FAULT'}\<close>; for the raw value 5, which has no entry, the record carries the
  state \<^verbatim>\<open>'5'\<close> and no physical value.
\<close>

theorem unmatched_choice_counterexample:
  "map sig_choices (signals status_msg) = [Some [(2, ''FAULT'')]] \<and>
   map raw_value (snd (decode_frame [status_msg] ''t'' 0x300 [0x05] [])) = [Some (IntV 5)] \<and>
   map state (snd (decode_frame [status_msg] ''t'' 0x300 [0x05] [])) = [Some ''5''] \<and>
   map physical_value (snd (decode_frame [status_msg] ''t'' 0x300 [0x05] [])) = [None]"
  by (simp add: eval_defs)




section \<open>The name of an unknown frame\<close>

lemma less_16_cases:
  assumes "(d::nat) < 16"
  shows "d = 0 \<or> d = 1 \<or> d = 2 \<or> d = 3 \<or> d = 4 \<or> d = 5 \<or> d = 6 \<or> d = 7 \<or>
         d = 8 \<or> d = 9 \<or> d = 10 \<or> d = 11 \<or> d = 12 \<or> d = 13 \<or> d = 14 \<or> d = 15"
  using assms by arith

lemma upper_hex_char:
  assumes "d < 16"
  shows "digit_value (upper_char (hex_char d)) = Some d \<and>
         upper_hexdigit (upper_char (hex_char d)) \<and>
         upper_char (hex_char d) \<noteq> CHR ''_'' \<and>
         (0 < d \<longrightarrow> upper_char (hex_char d) \<noteq> CHR ''0'')"
  using less_16_cases [OF assms]
  by (elim disjE) (simp_all add: hex_char_def upper_char_def digit_value_def upper_hexdigit_def)

lemma digits_acc_single:
  assumes "digit_value c = Some d" and "d < b" and "c \<noteq> CHR ''_''"
  shows "digits_acc b need acc [c] = Some (acc * b + d)"
  using assms by simp

lemma digits_acc_snoc:
  assumes "digits_acc b need acc xs = Some a"
    and "digit_value c = Some d" and "d < b" and "c \<noteq> CHR ''_''"
  shows "digits_acc b need acc (xs @ [c]) = Some (a * b + d)"
  using assms
proof (induction xs arbitrary: need acc)
  case Nil
  then show ?case by (simp split: if_splits)
next
  case (Cons x xs)
  then show ?case by (auto split: if_splits option.splits)
qed

lemma digits_acc_hex_digits:
  "digits_acc 16 True 0 (upper (hex_digits n)) = Some n"
proof (induction n rule: hex_digits.induct)
  case (1 n)
  show ?case
  proof (cases "n < 16")
    case True
    then show ?thesis
      using upper_hex_char [of n] digits_acc_single [of "upper_char (hex_char n)" n 16 True 0]
      by (simp add: hex_digits.simps [of n] upper_def)
  next
    case False
    then have ih: "digits_acc 16 True 0 (upper (hex_digits (n div 16))) = Some (n div 16)"
      using "1.IH" by simp
    have d: "n mod 16 < 16" by simp
    from digits_acc_snoc [OF ih, of "upper_char (hex_char (n mod 16))" "n mod 16"]
      upper_hex_char [OF d]
    have "digits_acc 16 True 0 (upper (hex_digits (n div 16)) @ [upper_char (hex_char (n mod 16))])
            = Some (n div 16 * 16 + n mod 16)"
      by simp
    with False show ?thesis
      by (simp add: hex_digits.simps [of n] upper_def)
  qed
qed

lemma upper_hex_digits_chars:
  "list_all upper_hexdigit (upper (hex_digits n))"
proof (induction n rule: hex_digits.induct)
  case (1 n)
  show ?case
  proof (cases "n < 16")
    case True
    then show ?thesis
      using upper_hex_char [of n] by (simp add: hex_digits.simps [of n] upper_def)
  next
    case False
    have d: "n mod 16 < 16" by simp
    from False "1.IH" upper_hex_char [OF d] show ?thesis
      by (simp add: hex_digits.simps [of n] upper_def)
  qed
qed

lemma upper_hex_digits_canonical:
  "0 < n \<Longrightarrow> upper (hex_digits n) \<noteq> [] \<and> hd (upper (hex_digits n)) \<noteq> CHR ''0''"
proof (induction n rule: hex_digits.induct)
  case (1 n)
  show ?case
  proof (cases "n < 16")
    case True
    with "1.prems" show ?thesis
      using upper_hex_char [of n] by (simp add: hex_digits.simps [of n] upper_def)
  next
    case False
    then have "0 < n div 16" by simp
    with False "1.IH" have "upper (hex_digits (n div 16)) \<noteq> [] \<and>
        hd (upper (hex_digits (n div 16))) \<noteq> CHR ''0''" by simp
    with False show ?thesis
      by (simp add: hex_digits.simps [of n] upper_def)
  qed
qed

lemma upper_hexdigit_facts:
  assumes "upper_hexdigit c"
  shows "\<not> int_space c \<and> c \<noteq> CHR ''+'' \<and> c \<noteq> CHR ''-'' \<and> c \<noteq> CHR ''x'' \<and> c \<noteq> CHR ''X''"
  using assms by (auto simp: upper_hexdigit_def int_space_def Let_def)

lemma int_strip_no_space:
  assumes "\<forall>c \<in> set s. \<not> int_space c"
  shows "int_strip s = s"
proof -
  have a: "dropWhile int_space s = s"
    using assms by (rule dropWhile_none)
  have b: "dropWhile int_space (rev s) = rev s"
    using assms dropWhile_none [of "rev s" int_space] by simp
  show ?thesis by (simp add: int_strip_def a b)
qed

lemma py_int_upper_hex:
  assumes chars: "list_all upper_hexdigit ds" and val: "digits_acc 16 True 0 ds = Some n"
  shows "py_int 16 ds = Inr (int n)"
proof -
  have ns: "\<forall>c \<in> set ds. \<not> int_space c"
    using chars upper_hexdigit_facts by (auto simp: list_all_iff)
  have s: "int_strip ds = ds" using ns by (rule int_strip_no_space)
  have p1: "\<not> startswith ds ''+''" "\<not> startswith ds ''-''"
    using chars upper_hexdigit_facts by (cases ds; auto simp: startswith_def)+
  have p2: "\<not> startswith ds ''0x''" "\<not> startswith ds ''0X''"
    using chars upper_hexdigit_facts
    by (cases ds; cases "tl ds"; auto simp: startswith_def)+
  show ?thesis
    using val p1 p2 by (simp add: py_int_def s Let_def)
qed

lemma unknown_name:
  assumes "0 \<le> cid"
  shows "message_name (unknown_record ts cid) = ''Unknown_'' @ upper (hex_digits (nat cid))"
  using assms by (simp add: unknown_record_def py_hex_def upper_def)

text \<open>
  The name of an unknown frame whose id is not negative. Such a frame adds exactly one
  record. Its message name is \<^verbatim>\<open>Unknown_\<close> followed by the
  uppercase hexadecimal digits of the id: characters \<^verbatim>\<open>0-9A-F\<close> only, no leading
  zero, and read back in base 16 they give the id. Signal name, raw value, physical
  value, state and unit are absent; the first four are written as \<^verbatim>\<open>N/A\<close>, the unit
  as the empty string.
\<close>

theorem unknown_frame_record:
  assumes "find_message db cid = None" and "0 \<le> cid"
  shows "\<exists>r ds. decode_frame db ts cid bs acc = (Done, acc @ [r]) \<and>
     message_name r = ''Unknown_'' @ ds \<and>
     list_all upper_hexdigit ds \<and> (ds = ''0'' \<or> hd ds \<noteq> CHR ''0'') \<and>
     py_int 16 ds = Inr cid \<and>
     timestamp r = ts \<and> can_id r = py_hex cid \<and>
     signal_name r = None \<and> raw_value r = None \<and> physical_value r = None \<and>
     state r = None \<and> unit r = None \<and>
     drop 3 (save_row fmt3 r) = [''N/A'', ''N/A'', ''N/A'', ''N/A'', []]"
proof -
  let ?r = "unknown_record ts cid"
  let ?ds = "upper (hex_digits (nat cid))"
  have run: "decode_frame db ts cid bs acc = (Done, acc @ [?r])"
    using assms(1) by (rule decode_frame_not_found)
  have nm: "message_name ?r = ''Unknown_'' @ ?ds"
    using assms(2) by (rule unknown_name)
  have chars: "list_all upper_hexdigit ?ds" by (rule upper_hex_digits_chars)
  have canon: "?ds = ''0'' \<or> hd ?ds \<noteq> CHR ''0''"
  proof (cases "nat cid = 0")
    case True
    then show ?thesis
      by (simp add: hex_digits.simps [of 0] upper_def hex_char_def upper_char_def)
  next
    case False
    then show ?thesis using upper_hex_digits_canonical [of "nat cid"] by simp
  qed
  have rt: "py_int 16 ?ds = Inr cid"
    using py_int_upper_hex [OF chars digits_acc_hex_digits] assms(2) by simp
  have fields: "timestamp ?r = ts \<and> can_id ?r = py_hex cid \<and>
     signal_name ?r = None \<and> raw_value ?r = None \<and> physical_value ?r = None \<and>
     state ?r = None \<and> unit ?r = None"
    by (simp add: unknown_record_def)
  have cells: "drop 3 (save_row fmt3 ?r) = [''N/A'', ''N/A'', ''N/A'', ''N/A'', []]"
    by (simp add: save_row_def unknown_record_def or_na_def)
  from run nm chars canon rt fields cells show ?thesis by blast
qed

theorem unknown_frame_record_witness:
  "find_message [status_msg] 0x200 = None \<and> (0::int) \<le> 0x200 \<and>
   decode_frame [status_msg] ''t'' 0x200 [0x02] [] =
     (Done, [\<lparr>timestamp = ''t'', can_id = ''0x200'', message_name = ''Unknown_200'',
              signal_name = None, raw_value = None, physical_value = None,
              state = None, unit = None\<rparr>])"
proof -
  have h: "find_message [status_msg] 0x200 = None"
    by (simp add: find_message_def status_msg_def)
  have e: "decode_frame [status_msg] ''t'' 0x200 [0x02] [] =
     (Done, [\<lparr>timestamp = ''t'', can_id = ''0x200'', message_name = ''Unknown_200'',
              signal_name = None, raw_value = None, physical_value = None,
              state = None, unit = None\<rparr>])"
    by (simp add: eval_defs)
  from unknown_frame_record [OF h, of "''t''" "[0x02]" "[]" "\<lambda>x. []"]
  show ?thesis using h e by simp
qed

section \<open>The row pipeline\<close>

lemma parse_row_Some:
  assumes "parse_row row = Inr (Some (ts, cid, bs))"
  shows "\<exists>tsf idf d nd. row_timestamp row = Some tsf \<and> ts = remove_quotes (strip tsf) \<and>
     row_can_id row = Some idf \<and> parse_can_id (remove_quotes (strip idf)) = Inr cid \<and>
     row_data row = Some d \<and> normalize_data_field d = Inr nd \<and> fromhex nd = Inr bs"
  using assms
  by (auto simp: parse_row_def Let_def split: option.splits sum.splits if_splits)

lemma process_row_skip:
  assumes "\<forall>x. parse_row row \<noteq> Inr (Some x)"
  shows "process_row db row st =
     st\<lparr>row_count := row_count st + 1, skipped_rows := skipped_rows st + 1\<rparr>"
proof (cases "parse_row row")
  case (Inl e)
  then show ?thesis by (simp add: process_row_def Let_def)
next
  case (Inr x)
  with assms have "x = None" by (cases x) auto
  with Inr show ?thesis by (simp add: process_row_def Let_def)
qed

lemma decode_frame_timestamps:
  "\<exists>recs. decode_frame db ts cid bs acc = (Done, acc @ recs) \<and>
     (\<forall>r \<in> set recs. timestamp r = ts)"
proof (cases "find_message db cid")
  case None
  then show ?thesis
    using decode_frame_not_found [OF None, of ts bs acc] by (simp add: unknown_record_def)
next
  case (Some m)
  let ?ok = "\<lambda>it. \<not> isl (signal_record ts cid m it)"
  let ?rec = "\<lambda>it. projr (signal_record ts cid m it)"
  have good: "timestamp (?rec it) = ts" if "it \<in> set (takeWhile ?ok items)" for it items
  proof -
    from good_item_record [OF that]
    have "signal_record ts cid m (fst it, snd it) = Inr (?rec it)" by simp
    then show ?thesis using signal_record_fields by blast
  qed
  show ?thesis
  proof (cases "decode m bs")
    case (Inl e)
    then show ?thesis
      using decode_frame_found [OF Some, of ts bs acc] by (simp add: fallback_record_def)
  next
    case (Inr items)
    then show ?thesis
      using decode_frame_found [OF Some, of ts bs acc] good [of _ items]
      by (auto simp: fallback_record_def)
  qed
qed

lemma process_row_records:
  assumes "row_timestamp row = Some tsf"
  shows "\<exists>recs. decoded_data (process_row db row st) = decoded_data st @ recs \<and>
     (\<forall>r \<in> set recs. timestamp r = remove_quotes (strip tsf))"
proof (cases "\<exists>x. parse_row row = Inr (Some x)")
  case False
  then have "decoded_data (process_row db row st) = decoded_data st"
    using process_row_skip [of row db st] by simp
  then show ?thesis by simp
next
  case True
  then obtain ts cid bs where p: "parse_row row = Inr (Some (ts, cid, bs))"
    by (metis prod_cases3)
  from parse_row_Some [OF p] assms have ts: "ts = remove_quotes (strip tsf)" by auto
  obtain recs where d: "decode_frame db ts cid bs (decoded_data st) = (Done, decoded_data st @ recs)"
    and t: "\<forall>r \<in> set recs. timestamp r = ts"
    using decode_frame_timestamps [of db ts cid bs "decoded_data st"] by blast
  from p d have "decoded_data (process_row db row st) = decoded_data st @ recs"
    by (simp add: process_row_def Let_def)
  with t ts show ?thesis by blast
qed

lemma strip_unchanged:
  assumes "s = [] \<or> (\<not> isspace (hd s) \<and> \<not> isspace (last s))"
  shows "strip s = s"
proof (cases "s = []")
  case True
  then show ?thesis by (simp add: strip_def)
next
  case False
  with assms have a: "dropWhile isspace s = s" by (cases s) auto
  from False assms have "\<not> isspace (hd (rev s))" by (simp add: hd_rev)
  with False have b: "dropWhile isspace (rev s) = rev s" by (cases "rev s") auto
  show ?thesis by (simp add: strip_def a b)
qed

text \<open>
  Claim C6, as amended. Every record produced for a row carries the row's timestamp
  field after \<^verbatim>\<open>strip()\<close> and the removal of every double quote (line 56); it is the
  original field when that neither starts nor ends with whitespace and holds no double
  quote.
\<close>

theorem row_timestamp_carried:
  assumes "row_timestamp row = Some tsf"
  shows "\<exists>recs. decoded_data (process_row db row st) = decoded_data st @ recs \<and>
     (\<forall>r \<in> set recs. timestamp r = remove_quotes (strip tsf)) \<and>
     ((tsf = [] \<or> (\<not> isspace (hd tsf) \<and> \<not> isspace (last tsf))) \<and> CHR 0x22 \<notin> set tsf
        \<longrightarrow> remove_quotes (strip tsf) = tsf)"
proof -
  have "remove_quotes (strip tsf) = tsf"
    if "tsf = [] \<or> (\<not> isspace (hd tsf) \<and> \<not> isspace (last tsf))" and "CHR 0x22 \<notin> set tsf"
    using that strip_unchanged [of tsf] by (auto simp: remove_quotes_def filter_id_conv)
  with process_row_records [OF assms, of db st] show ?thesis by blast
qed

lemmas row_defs = process_row_def parse_row_def parse_can_id_def py_int_def strip_def
  int_strip_def int_space_def isspace_def startswith_def digit_value_def max_str_digits_def remove_quotes_def
  normalize_data_field_def remove_whitespace_def match_hex_def hexdigit_def
  hex_value_def ascii_space_def initial_state_def

theorem row_timestamp_carried_witness:
  "row_timestamp \<lparr>row_timestamp = Some ''12.5'', row_can_id = Some ''0x200'',
      row_data = Some ''00''\<rparr> = Some ''12.5'' \<and>
   map timestamp (decoded_data (process_row []
     \<lparr>row_timestamp = Some ''12.5'', row_can_id = Some ''0x200'', row_data = Some ''00''\<rparr>
     initial_state)) = [''12.5'']"
proof -
  let ?row = "\<lparr>row_timestamp = Some ''12.5'', row_can_id = Some ''0x200'',
      row_data = Some ''00''\<rparr>"
  have h: "row_timestamp ?row = Some ''12.5''" by simp
  have e: "map timestamp (decoded_data (process_row [] ?row initial_state)) = [''12.5'']"
    by (simp add: row_defs eval_defs)
  from row_timestamp_carried [OF h, of "[]" initial_state] show ?thesis using h e by simp
qed

text \<open>
  Claim C6 as stated fails: the timestamp field \<^verbatim>\<open>' 12.5'\<close> (a leading blank)
  reaches the output record as \<^verbatim>\<open>'12.5'\<close>.
\<close>

theorem timestamp_stripped_counterexample:
  "map timestamp (decoded_data (process_row []
     \<lparr>row_timestamp = Some '' 12.5'', row_can_id = Some ''0x200'', row_data = Some ''00''\<rparr>
     initial_state)) = [''12.5'']"
  by (simp add: row_defs eval_defs)

text \<open>
  Claim C5 on the code. The id text \<^verbatim>\<open>0x1A2\<close> is read in base 16 and gives 418; the
  id text \<^verbatim>\<open>0X1A2\<close> does not start with the lowercase prefix that line 68 tests, is
  read in base 10, and the row is skipped.
\<close>

theorem uppercase_prefix_id_skipped:
  "parse_can_id ''0x1A2'' = Inr 418 \<and>
   parse_can_id ''0X1A2'' = Inl ValueError \<and>
   py_int 16 ''0X1A2'' = Inr 418 \<and>
   process_row []
     \<lparr>row_timestamp = Some ''12.5'', row_can_id = Some ''0X1A2'', row_data = Some ''00''\<rparr>
     initial_state = \<lparr>decoded_data = [], row_count = 1, skipped_rows = 1\<rparr> \<and>
   map message_name (decoded_data (process_row []
     \<lparr>row_timestamp = Some ''12.5'', row_can_id = Some ''0x1A2'', row_data = Some ''00''\<rparr>
     initial_state)) = [''Unknown_1A2'']"
  by (simp add: row_defs eval_defs)

text \<open>
  Claim C7 on the code. For an id that is absent from the schema and not negative the
  claim holds (\<open>unknown_frame_record\<close>). The decimal branch of line 68 also accepts a
  signed text: the row with id \<^verbatim>\<open>-5\<close> is not skipped, \<^verbatim>\<open>hex(can_id)\<close> is
  \<^verbatim>\<open>-0x5\<close>, the slice \<^verbatim>\<open>[2:]\<close> of line 95 starts at the \<^verbatim>\<open>x\<close>, and the record
  is named \<^verbatim>\<open>Unknown_X5\<close>, which is not the hexadecimal text of the id.
\<close>

theorem negative_id_unknown_name:
  "parse_can_id ''-5'' = Inr (- 5) \<and>
   py_hex (- 5) = ''-0x5'' \<and>
   process_row []
     \<lparr>row_timestamp = Some ''12.5'', row_can_id = Some ''-5'', row_data = Some ''00''\<rparr>
     \<lparr>decoded_data = [], row_count = 0, skipped_rows = 0\<rparr> =
     \<lparr>decoded_data =
        [\<lparr>timestamp = ''12.5'', can_id = ''-0x5'', message_name = ''Unknown_X5'',
          signal_name = None, raw_value = None, physical_value = None, state = None,
          unit = None\<rparr>],
      row_count = 1, skipped_rows = 0\<rparr>"
  by (simp add: row_defs eval_defs)

text \<open>The separators 28-31 are stripped from the field by line 57 only at its ends;
  inside the id text they make \<^verbatim>\<open>int\<close> fail, and the row is skipped.\<close>

lemma separator_in_id_rejected:
  "py_int 10 [CHR 0x1C, CHR ''5''] = Inl ValueError \<and>
   py_int 16 [CHR ''0'', CHR ''x'', CHR ''1'', CHR ''A'', CHR 0x1F] = Inl ValueError \<and>
   py_int 10 '' 5 '' = Inr 5"
  by (simp add: py_int_def int_strip_def int_space_def startswith_def digit_value_def
      max_str_digits_def)

section \<open>Header check and empty payloads\<close>

text \<open>
  Claim C9. When the declared header lacks one of \<^verbatim>\<open>timestamp\<close>, \<^verbatim>\<open>can_id\<close>,
  \<^verbatim>\<open>data\<close>, the run ends with \<^verbatim>\<open>ValueError\<close> raised to the caller, with no row
  processed: \<^verbatim>\<open>decoded_data\<close> is empty and both counters are zero at that moment,
  whatever rows the file holds.
\<close>

theorem missing_column_is_fatal:
  assumes "fieldnames f = Some hs"
    and "\<not> {''timestamp'', ''can_id'', ''data''} \<subseteq> set hs"
  shows "decode_can_data_run f db =
           (Raised ValueError, \<lparr>decoded_data = [], row_count = 0, skipped_rows = 0\<rparr>) \<and>
         decode_can_data f db = Inl ValueError"
  using assms
  by (auto simp: decode_can_data_run_def decode_can_data_def has_columns_def
      initial_state_def)

theorem missing_column_is_fatal_witness:
  "fieldnames \<lparr>fieldnames = Some [''timestamp'', ''data''],
      rows = [\<lparr>row_timestamp = Some ''12.5'', row_can_id = None,
               row_data = Some ''00''\<rparr>]\<rparr> = Some [''timestamp'', ''data''] \<and>
   \<not> {''timestamp'', ''can_id'', ''data''} \<subseteq> set [''timestamp'', ''data''] \<and>
   decode_can_data \<lparr>fieldnames = Some [''timestamp'', ''data''],
      rows = [\<lparr>row_timestamp = Some ''12.5'', row_can_id = None,
               row_data = Some ''00''\<rparr>]\<rparr> [engine_msg] = Inl ValueError"
proof -
  let ?f = "\<lparr>fieldnames = Some [''timestamp'', ''data''],
      rows = [\<lparr>row_timestamp = Some ''12.5'', row_can_id = None,
               row_data = Some ''00''\<rparr>]\<rparr>"
  have h1: "fieldnames ?f = Some [''timestamp'', ''data'']" by simp
  have h2: "\<not> {''timestamp'', ''can_id'', ''data''} \<subseteq> set [''timestamp'', ''data'']"
    by simp
  from missing_column_is_fatal [OF h1 h2, of "[engine_msg]"]
  show ?thesis using h1 h2 by simp
qed

lemma hexdigit_hex_value:
  assumes "hexdigit c"
  shows "\<not> ascii_space c \<and> (\<exists>x. hex_value c = Some x)"
  using assms
  by (auto simp: hexdigit_def ascii_space_def hex_value_def digit_value_def Let_def)

lemma fromhex_hex:
  "list_all hexdigit t \<Longrightarrow> even (length t) \<Longrightarrow>
     \<exists>bs. fromhex t = Inr bs \<and> length bs = length t div 2"
proof (induction t rule: fromhex.induct)
  case 1
  then show ?case by simp
next
  case (2 a)
  then show ?case by simp
next
  case (3 a b rest)
  from "3.prems" have ha: "hexdigit a" and hb: "hexdigit b"
    and hr: "list_all hexdigit rest" and er: "even (length rest)"
    by simp_all
  from ha hexdigit_hex_value obtain x where x: "\<not> ascii_space a" "hex_value a = Some x"
    by blast
  from hb hexdigit_hex_value obtain y where y: "hex_value b = Some y"
    by blast
  from "3.IH"(2) [OF x(1) _ x(2) y hr er]
  obtain bs where bs: "fromhex rest = Inr bs" "length bs = length rest div 2"
    by auto
  with x y show ?case by simp
qed

lemma payload_not_empty:
  assumes "parse_row row = Inr (Some (ts, cid, bs))"
  shows "bs \<noteq> []"
proof -
  from parse_row_Some [OF assms] obtain d nd
    where n: "normalize_data_field d = Inr nd" and f: "fromhex nd = Inr bs"
    by blast
  from normalize_result [OF n]
  have nd: "nd \<noteq> []" "even (length nd)" "list_all hexdigit nd" by simp_all
  from fromhex_hex [OF nd(3) nd(2)] f have "length bs = length nd div 2" by simp
  moreover from nd(1,2) have "2 \<le> length nd"
    by (cases nd; cases "tl nd") auto
  ultimately show ?thesis by auto
qed

lemma normalize_empty_rejected:
  assumes "remove_0x (remove_whitespace (remove_quotes (strip d))) = []"
  shows "normalize_data_field d = Inl ValueError"
  using assms by (simp add: normalize_data_field_def match_hex_def)

text \<open>
  Claim C10. A row whose data field normalizes to the empty string is skipped: the
  row counter and the skip counter each go up by one and no record is added, because
  \<^verbatim>\<open>normalize_data_field\<close> rejects the empty text. So whenever a row reaches the
  schema lookup and the decoder, its payload holds at least one byte.
\<close>

theorem empty_payload_never_decoded:
  "(row_data row = Some d \<and> remove_0x (remove_whitespace (remove_quotes (strip d))) = []
      \<longrightarrow> normalize_data_field d = Inl ValueError \<and>
          process_row db row st =
            st\<lparr>row_count := row_count st + 1, skipped_rows := skipped_rows st + 1\<rparr>) \<and>
   (parse_row row = Inr (Some (ts, cid, bs)) \<longrightarrow> bs \<noteq> [])"
proof -
  have skip: "normalize_data_field d = Inl ValueError \<and>
      process_row db row st =
        st\<lparr>row_count := row_count st + 1, skipped_rows := skipped_rows st + 1\<rparr>"
    if rd: "row_data row = Some d"
      and e: "remove_0x (remove_whitespace (remove_quotes (strip d))) = []"
  proof -
    from e have n: "normalize_data_field d = Inl ValueError"
      by (rule normalize_empty_rejected)
    have "parse_row row \<noteq> Inr (Some x)" for x
    proof
      assume p: "parse_row row = Inr (Some x)"
      obtain ts' cid' bs' where x: "x = (ts', cid', bs')" by (cases x) auto
      from parse_row_Some [OF p [unfolded x]] rd n show False by auto
    qed
    then have "process_row db row st =
        st\<lparr>row_count := row_count st + 1, skipped_rows := skipped_rows st + 1\<rparr>"
      using process_row_skip [of row db st] by blast
    with n show ?thesis by simp
  qed
  moreover have "bs \<noteq> []" if "parse_row row = Inr (Some (ts, cid, bs))"
    using that by (rule payload_not_empty)
  ultimately show ?thesis by blast
qed

theorem empty_payload_never_decoded_witness:
  "row_data \<lparr>row_timestamp = Some ''12.5'', row_can_id = Some ''0x200'',
      row_data = Some '' \"0x\" 0X ''\<rparr> = Some '' \"0x\" 0X '' \<and>
   remove_0x (remove_whitespace (remove_quotes (strip '' \"0x\" 0X ''))) = [] \<and>
   process_row [] \<lparr>row_timestamp = Some ''12.5'', row_can_id = Some ''0x200'',
      row_data = Some '' \"0x\" 0X ''\<rparr> initial_state =
     \<lparr>decoded_data = [], row_count = 1, skipped_rows = 1\<rparr> \<and>
   parse_row \<lparr>row_timestamp = Some ''12.5'', row_can_id = Some ''0x200'',
      row_data = Some ''00''\<rparr> = Inr (Some (''12.5'', 0x200, [0]))"
proof -
  let ?row = "\<lparr>row_timestamp = Some ''12.5'', row_can_id = Some ''0x200'',
      row_data = Some '' \"0x\" 0X ''\<rparr>"
  let ?row2 = "\<lparr>row_timestamp = Some ''12.5'', row_can_id = Some ''0x200'',
      row_data = Some ''00''\<rparr>"
  have h1: "row_data ?row = Some '' \"0x\" 0X ''" by simp
  have h2: "remove_0x (remove_whitespace (remove_quotes (strip '' \"0x\" 0X ''))) = []"
    by (simp add: strip_def isspace_def remove_quotes_def remove_whitespace_def)
  have h3: "parse_row ?row2 = Inr (Some (''12.5'', 0x200, [0]))"
    by (simp add: row_defs)
  from empty_payload_never_decoded [of ?row "'' \"0x\" 0X ''" "[]" initial_state]
  show ?thesis using h1 h2 h3 by (simp add: initial_state_def)
qed

end
